theory Spec2Isabelle
  imports Complex_Main "HOL-Library.Word" "HOL-Library.AList"
begin

section \<open>The XGBoost wrapper of src/src/loadXGBoost.js\<close>

text \<open>
  The file defines one class, \<open>XGBoost\<close>, around a library compiled to WebAssembly.
  Every method is embedded as a function that takes the environment (the compiled
  module and the pieces of the JavaScript host the class calls), the object and the
  state of the WebAssembly instance, and returns what the method returns or throws
  together with the object and the instance as the call leaves them: a throw does not
  undo the assignments made before it.
\<close>

subsection \<open>Values, errors and objects\<close>

text \<open>The three error classes the file and the host throw, with their message.\<close>

datatype error = Error string | RangeError string | TypeError string

text \<open>
  The values an option can hold. A number is modelled by the real it denotes (NaN and
  the infinities are outside the model, and \<open>+0\<close> and \<open>-0\<close> are one number, as they
  are for \<open>Set\<close>).
\<close>

datatype jsval = JUndefined | JNull | JBool bool | JNum real | JStr string

text \<open>
  A plain object: its own properties in insertion order, which is the order of
  \<open>for ... in\<close> and of \<open>Object.keys\<close> for keys that are not array indices, as
  option names are not. Keys are meant distinct; a lookup reads the first binding, and
  a missing property reads \<open>undefined\<close>.
\<close>

type_synonym object = "(string \<times> jsval) list"

definition get :: "object \<Rightarrow> string \<Rightarrow> jsval" where
  "get obj key = (case map_of obj key of None \<Rightarrow> JUndefined | Some v \<Rightarrow> v)"

text \<open>\<open>obj[key] = v\<close>: an existing property keeps its place, a new one goes last.\<close>

definition put :: "string \<Rightarrow> jsval \<Rightarrow> object \<Rightarrow> object" where
  "put key v obj = AList.update key v obj"

text \<open>\<open>Object.assign(target, source)\<close>.\<close>

definition Object_assign :: "object \<Rightarrow> object \<Rightarrow> object" where
  "Object_assign target source = fold (\<lambda>(key, v). put key v) source target"

definition Object_keys :: "object \<Rightarrow> string list" where
  "Object_keys obj = map fst obj"

subsection \<open>The WebAssembly instance and the environment\<close>

type_synonym byte = "8 word"

text \<open>
  The instance: its linear memory as the byte view \<open>HEAPU8\<close>, and the state of the
  compiled library (its models, its parameters, the file it last saved), of a type the
  wrapper never looks into.
\<close>

record 'l wasm =
  HEAPU8 :: "nat \<Rightarrow> byte"
  lib :: 'l

text \<open>
  What the class calls and this repository's sources do not define: the eight
  functions obtained through \<open>cwrap\<close> (lines 5 to 12), \<open>_malloc\<close> and \<open>_free\<close> of
  the module, and from the host \<open>Float32Array.from(xs).buffer\<close> read as bytes,
  \<open>Number.prototype.toString\<close>, and whether \<open>Matrix.checkMatrix\<close> of ml-matrix
  throws on an array of rows. They are parameters. A model handle is passed as the
  class holds it: \<open>None\<close> is \<open>undefined\<close>. A call into the module is taken to
  return: compiled code that aborts is outside the embedding.
\<close>

record 'l env =
  create_model :: "byte list \<Rightarrow> byte list \<Rightarrow> nat \<Rightarrow> nat \<Rightarrow> 'l wasm \<Rightarrow> int \<times> 'l wasm"
  free_model :: "int option \<Rightarrow> 'l wasm \<Rightarrow> 'l wasm"
  set_param :: "int option \<Rightarrow> string \<Rightarrow> jsval \<Rightarrow> 'l wasm \<Rightarrow> 'l wasm"
  train_full_model :: "int option \<Rightarrow> jsval \<Rightarrow> 'l wasm \<Rightarrow> 'l wasm"
  predict_one :: "int option \<Rightarrow> byte list \<Rightarrow> nat \<Rightarrow> 'l wasm \<Rightarrow> real \<times> 'l wasm"
  save_model :: "int option \<Rightarrow> 'l wasm \<Rightarrow> int \<times> 'l wasm"
  get_file_content :: "nat \<Rightarrow> int \<Rightarrow> 'l wasm \<Rightarrow> 'l wasm"
  load_model :: "nat \<Rightarrow> nat \<Rightarrow> 'l wasm \<Rightarrow> int \<times> 'l wasm"
  malloc :: "int \<Rightarrow> 'l wasm \<Rightarrow> nat \<times> 'l wasm"
  free :: "nat \<Rightarrow> 'l wasm \<Rightarrow> 'l wasm"
  Float32_bytes :: "real list \<Rightarrow> byte list"
  Number_toString :: "real \<Rightarrow> string"
  checkMatrix :: "real list list \<Rightarrow> error option"

text \<open>\<open>xgboost.HEAPU8.set(array, offset)\<close> and \<open>xgboost.getValue(ptr, 'i8')\<close>.\<close>

definition HEAPU8_set :: "byte list \<Rightarrow> nat \<Rightarrow> 'l wasm \<Rightarrow> 'l wasm" where
  "HEAPU8_set array offset w =
     w\<lparr>HEAPU8 := (\<lambda>a. if offset \<le> a \<and> a < offset + length array
                        then array ! (a - offset) else HEAPU8 w a)\<rparr>"

definition getValue_i8 :: "nat \<Rightarrow> 'l wasm \<Rightarrow> int" where
  "getValue_i8 ptr w = sint (HEAPU8 w ptr)"

text \<open>\<open>new Uint8Array(xs)\<close> on an array of integers: each one modulo 256.\<close>

definition Uint8Array_from :: "int list \<Rightarrow> byte list" where
  "Uint8Array_from xs = map word_of_int xs"

subsection \<open>Conversions to string\<close>

text \<open>The decimal digits of a count, as \<open>toString\<close> gives them for \<open>Set.size\<close>.\<close>

function nat_toString :: "nat \<Rightarrow> string" where
  "nat_toString n =
     (if n < 10 then [''0123456789'' ! n]
      else nat_toString (n div 10) @ [''0123456789'' ! (n mod 10)])"
  by pat_completeness auto
termination
  by (relation "measure (\<lambda>n. n)") auto

declare nat_toString.simps [simp del]

text \<open>\<open>v.toString()\<close>: a TypeError on \<open>undefined\<close> and \<open>null\<close>, which have no property.\<close>

fun toString :: "'l env \<Rightarrow> jsval \<Rightarrow> error + string" where
  "toString R JUndefined = Inl (TypeError ''Cannot read properties of undefined'')"
| "toString R JNull = Inl (TypeError ''Cannot read properties of null'')"
| "toString R (JBool b) = Inr (if b then ''true'' else ''false'')"
| "toString R (JNum x) = Inr (Number_toString R x)"
| "toString R (JStr s) = Inr s"

text \<open>The conversion a template literal applies, which never throws on these values.\<close>

fun template :: "'l env \<Rightarrow> jsval \<Rightarrow> string" where
  "template R JUndefined = ''undefined''"
| "template R JNull = ''null''"
| "template R (JBool b) = (if b then ''true'' else ''false'')"
| "template R (JNum x) = Number_toString R x"
| "template R (JStr s) = s"

subsection \<open>The class\<close>

text \<open>
  The fields of an instance. \<open>model\<close> is \<open>undefined\<close> until \<open>train\<close> or the load path
  assigns the handle; \<open>checkLabels\<close> is assigned on the fresh path only and is
  \<open>undefined\<close>, hence false in a condition, on the load path.
\<close>

record XGBoost =
  model :: "int option"
  options :: object
  checkLabels :: bool

text \<open>The object \<open>toJSON\<close> returns and \<open>load\<close> reads.\<close>

record saved =
  j_name :: jsval
  j_model :: "int list"
  j_options :: object

definition defaultOptions :: object where
  "defaultOptions =
     [(''booster'', JStr ''gbtree''),
      (''objective'', JStr ''reg:linear''),
      (''max_depth'', JNum 5),
      (''eta'', JNum 0.1),
      (''min_child_weight'', JNum 1),
      (''subsample'', JNum 0.5),
      (''colsample_bytree'', JNum 1),
      (''silent'', JNum 1),
      (''iterations'', JNum 200)]"

text \<open>
  Lines 62 to 67, the loop that ends both paths of the constructor: every option but
  \<open>iterations\<close> is replaced by its \<open>toString()\<close>; the first throw ends the loop.
\<close>

fun stringify :: "'l env \<Rightarrow> object \<Rightarrow> string list \<Rightarrow> error + object" where
  "stringify R opts [] = Inr opts"
| "stringify R opts (key # keys) =
     (if key = ''iterations'' then stringify R opts keys
      else (case toString R (get opts key) of
              Inl e \<Rightarrow> Inl e
            | Inr s \<Rightarrow> stringify R (put key (JStr s) opts) keys))"

text \<open>\<open>new XGBoost(options)\<close>, lines 58 to 67: the path with \<open>options !== true\<close>.\<close>

definition XGBoost_new :: "'l env \<Rightarrow> object \<Rightarrow> error + XGBoost" where
  "XGBoost_new R opts =
     (let cl = (get opts ''objective'' = JStr ''multi:softmax'');
          merged = Object_assign (Object_assign [] defaultOptions) opts
      in case stringify R merged (Object_keys merged) of
           Inl e \<Rightarrow> Inl e
         | Inr strs \<Rightarrow> Inr \<lparr>model = None, options = strs, checkLabels = cl\<rparr>)"

text \<open>
  \<open>new XGBoost(true, model)\<close>, lines 47 to 56 and 62 to 67: the load path. The bytes
  are copied into the instance, \<open>load_model\<close> reads them, and a handle of 0 throws.
  The source assigns \<open>model.options\<close> itself and the loop rewrites that object in
  place; the function returns the rewritten object as the options of the new instance.
\<close>

definition XGBoost_from :: "'l env \<Rightarrow> saved \<Rightarrow> 'l wasm \<Rightarrow> (error + XGBoost) \<times> 'l wasm" where
  "XGBoost_from R m w =
     (let array = Uint8Array_from (j_model m);
          (offset, w1) = malloc R (int (length array)) w;
          w2 = HEAPU8_set array offset w1;
          (h, w3) = load_model R offset (length array) w2;
          w4 = free R offset w3
      in if h = 0 then (Inl (Error ''Error while loading the model!''), w4)
         else (case stringify R (j_options m) (Object_keys (j_options m)) of
                 Inl e \<Rightarrow> (Inl e, w4)
               | Inr strs \<Rightarrow>
                   (Inr \<lparr>model = Some h, options = strs, checkLabels = False\<rparr>, w4)))"

text \<open>The loop of lines 89 to 97 over \<open>Object.keys(this.options)\<close>.\<close>

fun set_params :: "'l env \<Rightarrow> int option \<Rightarrow> object \<Rightarrow> string list \<Rightarrow> 'l wasm \<Rightarrow> 'l wasm" where
  "set_params R h opts [] w = w"
| "set_params R h opts (variable # variables) w =
     (if variable = ''iterations'' then set_params R h opts variables w
      else set_params R h opts variables (set_param R h variable (get opts variable) w))"

text \<open>
  \<open>train(trainingSet, trainingValues)\<close>, lines 75 to 100. The matrix that
  \<open>checkMatrix\<close> lets through has the rows of the array, the length of its first row
  as columns, and the rows one after the other as \<open>to1DArray()\<close>.
\<close>

definition columns :: "real list list \<Rightarrow> nat" where
  "columns X = (case X of [] \<Rightarrow> 0 | r # _ \<Rightarrow> length r)"

definition train ::
  "'l env \<Rightarrow> XGBoost \<Rightarrow> real list list \<Rightarrow> real list \<Rightarrow> 'l wasm \<Rightarrow> (error + unit) \<times> XGBoost \<times> 'l wasm" where
  "train R b trainingSet trainingValues w =
     (let b1 = (if checkLabels b
                then b\<lparr>options := put ''num_class''
                        (JStr (nat_toString (length (remdups trainingValues)))) (options b)\<rparr>
                else b)
      in case checkMatrix R trainingSet of
           Some e \<Rightarrow> (Inl e, b1, w)
         | None \<Rightarrow>
             (let rows = length trainingSet;
                  cols = columns trainingSet;
                  flattenData = concat trainingSet;
                  (h, w1) = create_model R (Float32_bytes R flattenData)
                              (Float32_bytes R trainingValues) rows cols w;
                  b2 = b1\<lparr>model := Some h\<rparr>;
                  w2 = set_params R (model b2) (options b2) (Object_keys (options b2)) w1;
                  w3 = train_full_model R (model b2) (get (options b2) ''iterations'') w2
              in (Inr (), b2, w3)))"

text \<open>The loop of lines 110 to 113, one \<open>predict_one\<close> for each row in turn.\<close>

fun predict_rows ::
  "'l env \<Rightarrow> int option \<Rightarrow> nat \<Rightarrow> real list list \<Rightarrow> 'l wasm \<Rightarrow> real list \<times> 'l wasm" where
  "predict_rows R h cols [] w = ([], w)"
| "predict_rows R h cols (current # rest) w =
     (let (p, w1) = predict_one R h (Float32_bytes R current) cols w;
          (ps, w2) = predict_rows R h cols rest w1
      in (p # ps, w2))"

text \<open>\<open>predict(toPredict)\<close>, lines 107 to 116.\<close>

definition predict ::
  "'l env \<Rightarrow> XGBoost \<Rightarrow> real list list \<Rightarrow> 'l wasm \<Rightarrow> (error + real list) \<times> 'l wasm" where
  "predict R b toPredict w =
     (case checkMatrix R toPredict of
        Some e \<Rightarrow> (Inl e, w)
      | None \<Rightarrow>
          (let (predictions, w1) = predict_rows R (model b) (columns toPredict) toPredict w
           in (Inr predictions, w1)))"

text \<open>
  \<open>toJSON()\<close>, lines 122 to 143. \<open>!this.model\<close> holds of \<open>undefined\<close> and of 0. A size
  below 0 other than -1 passes the test of line 125 and makes \<open>new Uint8Array(size)\<close>
  throw a RangeError, after \<open>_malloc\<close> has run. The variable \<open>size\<close> is \<open>sz\<close> here.
\<close>

definition toJSON :: "'l env \<Rightarrow> XGBoost \<Rightarrow> 'l wasm \<Rightarrow> (error + saved) \<times> 'l wasm" where
  "toJSON R b w =
     (if model b = None \<or> model b = Some 0 then (Inl (Error ''No model trained to save''), w)
      else
        (let (sz, w1) = save_model R (model b) w
         in if sz = - 1
            then (Inl (Error ''Error while saving the model, please report this error''), w1)
            else
              (let (offset, w2) = malloc R sz w1
               in if sz < 0 then (Inl (RangeError ''Invalid typed array length''), w2)
                  else
                    (let w3 = HEAPU8_set (replicate (nat sz) 0) offset w2;
                         w4 = get_file_content R offset sz w3;
                         array = map (\<lambda>i. getValue_i8 (offset + i) w4) [0..<nat sz];
                         w5 = free R offset w4
                     in (Inr \<lparr>j_name = JStr ''ml-xgboost'', j_model = array,
                               j_options = options b\<rparr>, w5)))))"

text \<open>\<open>XGBoost.load(model)\<close>, lines 150 to 156.\<close>

definition load :: "'l env \<Rightarrow> saved \<Rightarrow> 'l wasm \<Rightarrow> (error + XGBoost) \<times> 'l wasm" where
  "load R m w =
     (if j_name m \<noteq> JStr ''ml-xgboost''
      then (Inl (RangeError (''Invalid model: '' @ template R (j_name m))), w)
      else XGBoost_from R m w)"

text \<open>\<open>free()\<close>, lines 165 to 167.\<close>

definition free_memory :: "'l env \<Rightarrow> XGBoost \<Rightarrow> 'l wasm \<Rightarrow> 'l wasm" where
  "free_memory R b w = free_model R (model b) w"

subsection \<open>An instance of the environment\<close>

text \<open>
  A small library to run the class on concrete inputs. It keeps every model as a list
  of bytes under a handle of its own, saves a model by making those bytes the current
  file, and loads one by reading the bytes back; its score of a row is the sum of the
  model's and the row's bytes. Parameters and training change nothing. A number is
  encoded in one byte, and printed exactly when it is an integer or has one decimal
  place. \<open>checkMatrix\<close> throws as \<open>new Matrix(array)\<close> of ml-matrix does: on an
  array without a first row, on a first row without elements, and on rows of
  different lengths.
\<close>

record store =
  models :: "(int \<times> byte list) list"
  saved_file :: "byte list"

definition lookup_model :: "store \<Rightarrow> int option \<Rightarrow> byte list option" where
  "lookup_model l h =
     (case h of None \<Rightarrow> None | Some k \<Rightarrow> if k = 0 then None else map_of (models l) k)"

definition fresh_handle :: "store \<Rightarrow> int" where
  "fresh_handle l = 1 + fold max (map fst (models l)) 0"

definition add_model :: "byte list \<Rightarrow> store wasm \<Rightarrow> int \<times> store wasm" where
  "add_model bs w =
     (let h = fresh_handle (lib w)
      in (h, w\<lparr>lib := (lib w)\<lparr>models := (h, bs) # models (lib w)\<rparr>\<rparr>))"

definition stub_score :: "byte list \<Rightarrow> byte list \<Rightarrow> nat \<Rightarrow> real" where
  "stub_score bs row cols = real (sum_list (map unat bs) + sum_list (map unat row))"

definition stub_predict_one :: "int option \<Rightarrow> byte list \<Rightarrow> nat \<Rightarrow> store wasm \<Rightarrow> real \<times> store wasm" where
  "stub_predict_one h row cols w =
     (case lookup_model (lib w) h of None \<Rightarrow> (0, w) | Some bs \<Rightarrow> (stub_score bs row cols, w))"

definition stub_save_model :: "int option \<Rightarrow> store wasm \<Rightarrow> int \<times> store wasm" where
  "stub_save_model h w =
     (case lookup_model (lib w) h of
        None \<Rightarrow> (- 1, w)
      | Some bs \<Rightarrow> (int (length bs), w\<lparr>lib := (lib w)\<lparr>saved_file := bs\<rparr>\<rparr>))"

definition stub_get_file_content :: "nat \<Rightarrow> int \<Rightarrow> store wasm \<Rightarrow> store wasm" where
  "stub_get_file_content offset sz w =
     HEAPU8_set (take (nat sz) (saved_file (lib w))) offset w"

definition stub_load_model :: "nat \<Rightarrow> nat \<Rightarrow> store wasm \<Rightarrow> int \<times> store wasm" where
  "stub_load_model offset n w = add_model (map (\<lambda>i. HEAPU8 w (offset + i)) [0..<n]) w"

definition stub_Float32_bytes :: "real list \<Rightarrow> byte list" where
  "stub_Float32_bytes xs = map (\<lambda>x. word_of_int \<lfloor>x\<rfloor>) xs"

definition stub_Number_toString :: "real \<Rightarrow> string" where
  "stub_Number_toString x =
     (let a = \<bar>x\<bar>; i = nat \<lfloor>a\<rfloor>; d = nat \<lfloor>(a - real i) * 10\<rfloor>
      in (if x < 0 then [CHR ''-''] else []) @ nat_toString i
         @ (if a = real i then [] else [CHR ''.''] @ nat_toString d))"

definition stub_checkMatrix :: "real list list \<Rightarrow> error option" where
  "stub_checkMatrix X =
     (case X of
        [] \<Rightarrow> Some (TypeError ''Cannot read properties of undefined'')
      | r # rs \<Rightarrow>
          if length r = 0 then Some (TypeError ''Data must be a 2D array with at least one element'')
          else if list_ex (\<lambda>x. length x \<noteq> length r) rs
          then Some (RangeError ''Inconsistent array dimensions'')
          else None)"

definition stub_env :: "store env" where
  "stub_env =
     \<lparr>create_model = (\<lambda>data labels rows cols w. add_model (data @ labels) w),
      free_model = (\<lambda>h w. w),
      set_param = (\<lambda>h key v w. w),
      train_full_model = (\<lambda>h iterations w. w),
      predict_one = stub_predict_one,
      save_model = stub_save_model,
      get_file_content = stub_get_file_content,
      load_model = stub_load_model,
      malloc = (\<lambda>sz w. (1024, w)),
      free = (\<lambda>offset w. w),
      Float32_bytes = stub_Float32_bytes,
      Number_toString = stub_Number_toString,
      checkMatrix = stub_checkMatrix\<rparr>"

definition stub_wasm :: "store wasm" where
  "stub_wasm = \<lparr>HEAPU8 = (\<lambda>a. 0), lib = \<lparr>models = [], saved_file = []\<rparr>\<rparr>"

subsection \<open>A run of the class\<close>

text \<open>
  What the class does in the instance above when it is constructed with the
  objective \<open>multi:softmax\<close> and trained on three rows with three labels, two of
  them distinct: the object and the instance after \<open>train\<close>.
\<close>

definition demo_set :: "real list list" where
  "demo_set = [[1, 2], [3, 4], [5, 6]]"

definition demo_values :: "real list" where
  "demo_values = [0, 1, 1]"

definition demo_options :: object where
  "demo_options =
     [(''booster'', JStr ''gbtree''),
      (''objective'', JStr ''multi:softmax''),
      (''max_depth'', JStr ''5''),
      (''eta'', JStr ''0.1''),
      (''min_child_weight'', JStr ''1''),
      (''subsample'', JStr ''0.5''),
      (''colsample_bytree'', JStr ''1''),
      (''silent'', JStr ''1''),
      (''iterations'', JNum 200)]"

definition demo_fresh :: XGBoost where
  "demo_fresh = \<lparr>model = None, options = demo_options, checkLabels = True\<rparr>"

definition demo_booster :: XGBoost where
  "demo_booster =
     \<lparr>model = Some 1, options = demo_options @ [(''num_class'', JStr ''2'')],
      checkLabels = True\<rparr>"

definition demo_wasm :: "store wasm" where
  "demo_wasm =
     \<lparr>HEAPU8 = (\<lambda>a. 0),
      lib = \<lparr>models = [(1, [1, 2, 3, 4, 5, 6, 0, 1, 1])], saved_file = []\<rparr>\<rparr>"

text \<open>The object \<open>new XGBoost({})\<close> gives, and what \<open>toJSON\<close> returns after the run.\<close>

definition demo_untrained :: XGBoost where
  "demo_untrained =
     \<lparr>model = None,
      options = (''booster'', JStr ''gbtree'') # (''objective'', JStr ''reg:linear'')
                  # drop 2 demo_options,
      checkLabels = False\<rparr>"

definition demo_saved :: saved where
  "demo_saved =
     \<lparr>j_name = JStr ''ml-xgboost'', j_model = [1, 2, 3, 4, 5, 6, 0, 1, 1],
      j_options = options demo_booster\<rparr>"

subsection \<open>The invariant of the options\<close>

text \<open>
  The invariant of the options, and the parameters the loop of \<open>train\<close> hands to
  \<open>set_param\<close>, in the order of the keys.
\<close>

fun is_string :: "jsval \<Rightarrow> bool" where
  "is_string (JStr s) = True"
| "is_string v = False"

definition strings_but_iterations :: "object \<Rightarrow> bool" where
  "strings_but_iterations opts =
     (\<forall>key \<in> set (Object_keys opts). key \<noteq> ''iterations'' \<longrightarrow> is_string (get opts key))"

definition forwarded :: "object \<Rightarrow> (string \<times> jsval) list" where
  "forwarded opts =
     map (\<lambda>key. (key, get opts key)) (filter (\<lambda>key. key \<noteq> ''iterations'') (Object_keys opts))"

subsection \<open>What the round trip needs of the compiled library\<close>

text \<open>
  The class saves a model by asking the library for the bytes of a file and loads it
  by handing bytes back. Whether the loaded model predicts as the saved one is decided
  by the library, which this repository's sources do not hold, so the round trip is
  stated for a library that keeps the following contract. \<open>live l h\<close> is the model a
  handle stands for in the library state \<open>l\<close> (none for \<open>undefined\<close> and for 0),
  \<open>file l\<close> the bytes of the file last saved, \<open>enc\<close> the bytes a model is saved
  as and \<open>score\<close> what a model predicts for a row.
  \<^item> \<open>predict_one\<close> returns the score of the handle's model and keeps the models;
  \<^item> \<open>save_model\<close> returns the length of the model's bytes, makes them the file and
    keeps the models;
  \<^item> \<open>_malloc\<close> and \<open>_free\<close> keep the models, and \<open>_malloc\<close> keeps the file;
  \<^item> \<open>get_file_content\<close>, asked for the whole file, writes it at the given address
    and keeps the models;
  \<^item> \<open>load_model\<close>, given an address that holds the bytes of a model, returns a handle
    other than 0 for a model with the same scores and keeps the models already there.
\<close>

definition faithful ::
  "'l env \<Rightarrow> ('l \<Rightarrow> int option \<Rightarrow> 'm option) \<Rightarrow> ('l \<Rightarrow> byte list) \<Rightarrow> ('m \<Rightarrow> byte list)
     \<Rightarrow> ('m \<Rightarrow> byte list \<Rightarrow> nat \<Rightarrow> real) \<Rightarrow> bool" where
  "faithful R live file enc score \<longleftrightarrow>
     (\<forall>l. live l None = None \<and> live l (Some 0) = None) \<and>
     (\<forall>h w mu row cols. live (lib w) h = Some mu \<longrightarrow>
        fst (predict_one R h row cols w) = score mu row cols \<and>
        live (lib (snd (predict_one R h row cols w))) = live (lib w)) \<and>
     (\<forall>h w mu. live (lib w) h = Some mu \<longrightarrow>
        fst (save_model R h w) = int (length (enc mu)) \<and>
        file (lib (snd (save_model R h w))) = enc mu \<and>
        live (lib (snd (save_model R h w))) = live (lib w)) \<and>
     (\<forall>n w. live (lib (snd (malloc R n w))) = live (lib w) \<and>
        file (lib (snd (malloc R n w))) = file (lib w)) \<and>
     (\<forall>p w. live (lib (free R p w)) = live (lib w)) \<and>
     (\<forall>p w i. i < length (file (lib w)) \<longrightarrow>
        HEAPU8 (get_file_content R p (int (length (file (lib w)))) w) (p + i) = file (lib w) ! i) \<and>
     (\<forall>p n w. live (lib (get_file_content R p n w)) = live (lib w)) \<and>
     (\<forall>p n w mu. map (\<lambda>i. HEAPU8 w (p + i)) [0..<n] = enc mu \<longrightarrow>
        fst (load_model R p n w) \<noteq> 0 \<and>
        (\<exists>nu. live (lib (snd (load_model R p n w))) (Some (fst (load_model R p n w))) = Some nu \<and>
              score nu = score mu) \<and>
        (\<forall>h nu. live (lib w) h = Some nu \<longrightarrow>
           live (lib (snd (load_model R p n w))) h = Some nu))"

text \<open>The object \<open>load\<close> makes of \<open>demo_saved\<close>.\<close>

definition demo_loaded :: XGBoost where
  "demo_loaded = \<lparr>model = Some 2, options = options demo_booster, checkLabels = False\<rparr>"

section \<open>Lemmas about objects and the two loops\<close>

lemma get_put: "get (put k v obj) k' = (if k' = k then v else get obj k')"
  by (simp add: get_def put_def update_conv')

lemma keys_put: "set (Object_keys (put k v obj)) = insert k (set (Object_keys obj))"
  by (simp add: Object_keys_def put_def update_keys) auto

lemma get_in_set: "key \<in> set (Object_keys obj) \<Longrightarrow> (key, get obj key) \<in> set obj"
proof -
  assume "key \<in> set (Object_keys obj)"
  then obtain v where "map_of obj key = Some v"
    unfolding Object_keys_def by (metis map_of_eq_None_iff not_Some_eq set_map)
  then show ?thesis by (simp add: get_def map_of_SomeD)
qed

lemma set_params_fold:
  "set_params R h opts keys w =
     fold (\<lambda>(key, v). set_param R h key v)
       (map (\<lambda>key. (key, get opts key)) (filter (\<lambda>key. key \<noteq> ''iterations'') keys)) w"
  by (induction keys arbitrary: w) simp_all

lemma stringify_error: "stringify R opts keys = Inl e \<Longrightarrow> \<exists>msg. e = TypeError msg"
proof (induction keys arbitrary: opts)
  case Nil
  then show ?case by simp
next
  case (Cons key keys)
  show ?case
  proof (cases "key = ''iterations''")
    case True
    with Cons show ?thesis by simp
  next
    case False
    show ?thesis
    proof (cases "get opts key")
      case JUndefined with Cons.prems False show ?thesis by auto
    next
      case JNull with Cons.prems False show ?thesis by auto
    next
      case (JBool x) with Cons False show ?thesis by (auto split: if_splits)
    next
      case (JNum x) with Cons False show ?thesis by auto
    next
      case (JStr x) with Cons False show ?thesis by auto
    qed
  qed
qed

lemma stringify_strings:
  "stringify R opts keys = Inr strs \<Longrightarrow>
     set (Object_keys strs) = set (Object_keys opts) \<union> (set keys - {''iterations''}) \<and>
     (\<forall>k. is_string (get opts k) \<or> (k \<in> set keys \<and> k \<noteq> ''iterations'') \<longrightarrow> is_string (get strs k))"
proof (induction keys arbitrary: opts)
  case Nil
  then show ?case by simp
next
  case (Cons key keys)
  show ?case
  proof (cases "key = ''iterations''")
    case True
    with Cons.prems have "stringify R opts keys = Inr strs" by simp
    from Cons.IH [OF this] True show ?thesis by auto
  next
    case False
    with Cons.prems obtain s where s: "toString R (get opts key) = Inr s"
      and rest: "stringify R (put key (JStr s) opts) keys = Inr strs"
      by (auto split: sum.splits)
    from Cons.IH [OF rest] False show ?thesis
      by (auto simp: keys_put get_put)
  qed
qed

lemma put_subset: "set (put k v obj) \<subseteq> insert (k, v) (set obj)"
  unfolding put_def by (induction obj) auto

lemma assign_values:
  "(k, v) \<in> set (Object_assign target source) \<Longrightarrow> (k, v) \<in> set target \<or> (k, v) \<in> set source"
proof (induction source arbitrary: target)
  case Nil
  then show ?case by (simp add: Object_assign_def)
next
  case (Cons p source)
  obtain k' v' where p: "p = (k', v')" by (cases p)
  from Cons.prems p have "(k, v) \<in> set (Object_assign (put k' v' target) source)"
    by (simp add: Object_assign_def)
  from Cons.IH [OF this] put_subset [of k' v' target] p show ?case by auto
qed

lemma toString_defined:
  "v \<noteq> JUndefined \<Longrightarrow> v \<noteq> JNull \<Longrightarrow> \<exists>s. toString R v = Inr s"
  by (cases v) simp_all

lemma stringify_defined:
  "\<forall>k \<in> set keys. k \<noteq> ''iterations'' \<longrightarrow> get opts k \<noteq> JUndefined \<and> get opts k \<noteq> JNull \<Longrightarrow>
     \<exists>strs. stringify R opts keys = Inr strs"
proof (induction keys arbitrary: opts)
  case Nil
  then show ?case by simp
next
  case (Cons key keys)
  show ?case
  proof (cases "key = ''iterations''")
    case True
    with Cons show ?thesis by simp
  next
    case False
    with Cons.prems obtain s where s: "toString R (get opts key) = Inr s"
      using toString_defined [of "get opts key" R] by auto
    have "\<forall>k \<in> set keys. k \<noteq> ''iterations'' \<longrightarrow>
            get (put key (JStr s) opts) k \<noteq> JUndefined \<and> get (put key (JStr s) opts) k \<noteq> JNull"
      using Cons.prems by (simp add: get_put)
    from Cons.IH [OF this] False s show ?thesis by simp
  qed
qed

lemma default_values: "(k, v) \<in> set defaultOptions \<Longrightarrow> v \<noteq> JUndefined \<and> v \<noteq> JNull"
  by (auto simp: defaultOptions_def)

lemma strings_forwarded:
  "strings_but_iterations opts = list_all (\<lambda>(key, v). is_string v) (forwarded opts)"
  by (auto simp: strings_but_iterations_def forwarded_def list_all_iff)

lemma strings_put:
  "strings_but_iterations opts \<Longrightarrow> strings_but_iterations (put key (JStr s) opts)"
  by (simp add: strings_but_iterations_def keys_put get_put)

lemma stringify_invariant:
  "stringify R opts (Object_keys opts) = Inr strs \<Longrightarrow> strings_but_iterations strs"
proof -
  assume run: "stringify R opts (Object_keys opts) = Inr strs"
  from stringify_strings [OF run] show ?thesis
    by (auto simp: strings_but_iterations_def)
qed

lemma stringify_strings_same:
  "strings_but_iterations opts \<Longrightarrow> set keys \<subseteq> set (Object_keys opts) \<Longrightarrow>
     stringify R opts keys = Inr opts"
proof (induction keys)
  case Nil
  then show ?case by simp
next
  case (Cons key keys)
  show ?case
  proof (cases "key = ''iterations''")
    case True
    with Cons show ?thesis by simp
  next
    case False
    with Cons.prems obtain s where s: "get opts key = JStr s"
      unfolding strings_but_iterations_def by (cases "get opts key") auto
    from Cons.prems have "key \<in> set (Object_keys opts)" by simp
    from get_in_set [OF this] s have "map_of opts key = Some (JStr s)"
      by (auto simp: get_def split: option.splits
               dest: weak_map_of_SomeI)
    then have "put key (JStr s) opts = opts"
      by (simp add: put_def update_triv)
    with Cons False s show ?thesis by simp
  qed
qed

lemma XGBoost_new_fields:
  "XGBoost_new R opts = Inr b \<Longrightarrow>
     model b = None \<and> checkLabels b = (get opts ''objective'' = JStr ''multi:softmax'') \<and>
     strings_but_iterations (options b)"
  by (auto simp: XGBoost_new_def Let_def split: sum.splits dest: stringify_invariant)

lemma XGBoost_from_fields:
  "fst (XGBoost_from R m w) = Inr b \<Longrightarrow> \<not> checkLabels b \<and> strings_but_iterations (options b)"
  by (auto simp: XGBoost_from_def Let_def split_def split: sum.splits if_splits
           dest: stringify_invariant)

lemma XGBoost_from_error:
  "XGBoost_from R m w = (Inl e, w1) \<Longrightarrow> \<exists>msg. e = Error msg \<or> e = TypeError msg"
proof -
  assume run: "XGBoost_from R m w = (Inl e, w1)"
  show ?thesis
  proof (cases "stringify R (j_options m) (Object_keys (j_options m))")
    case (Inl e')
    with run have "e = Error ''Error while loading the model!'' \<or> e = e'"
      by (simp add: XGBoost_from_def Let_def split_def split: if_splits)
    with stringify_error [OF Inl] show ?thesis by auto
  next
    case (Inr strs)
    with run have "e = Error ''Error while loading the model!''"
      by (simp add: XGBoost_from_def Let_def split_def split: if_splits)
    then show ?thesis by auto
  qed
qed

lemma keys_put_same:
  "k \<in> set (Object_keys obj) \<Longrightarrow> Object_keys (put k v obj) = Object_keys obj"
  by (simp add: Object_keys_def put_def update_keys)

lemma get_assign:
  "distinct (Object_keys source) \<Longrightarrow>
     get (Object_assign target source) k =
       (if k \<in> set (Object_keys source) then get source k else get target k)"
proof (induction source arbitrary: target)
  case Nil
  then show ?case by (simp add: Object_assign_def Object_keys_def)
next
  case (Cons p source)
  obtain k' v' where p: "p = (k', v')" by (cases p)
  from Cons.prems p have d: "distinct (Object_keys source)" and new: "k' \<notin> set (Object_keys source)"
    by (simp_all add: Object_keys_def)
  have step: "Object_assign target (p # source) = Object_assign (put k' v' target) source"
    by (simp add: Object_assign_def p)
  have here: "get (p # source) k = (if k = k' then v' else get source k)"
    by (simp add: get_def p)
  from Cons.IH [OF d, of "put k' v' target"] new show ?case
    unfolding step here by (auto simp: get_put Object_keys_def p)
qed

lemma get_defaults: "get (Object_assign [] defaultOptions) k = get defaultOptions k"
proof -
  have "distinct (Object_keys defaultOptions)"
    by (simp add: defaultOptions_def Object_keys_def)
  from get_assign [OF this, of "[]" k] show ?thesis
    by (auto simp: get_def Object_keys_def map_of_eq_None_iff [symmetric]
             simp del: map_of_eq_None_iff split: option.splits)
qed

lemma stringify_result:
  "stringify R opts keys = Inr strs \<Longrightarrow> set keys \<subseteq> set (Object_keys opts) \<Longrightarrow>
     Object_keys strs = Object_keys opts \<and>
     (\<forall>k. k \<in> set keys \<and> k \<noteq> ''iterations'' \<longrightarrow>
          (\<exists>s. toString R (get opts k) = Inr s \<and> get strs k = JStr s)) \<and>
     (\<forall>k. k \<notin> set keys \<or> k = ''iterations'' \<longrightarrow> get strs k = get opts k)"
proof (induction keys arbitrary: opts)
  case Nil
  then show ?case by simp
next
  case (Cons key keys)
  show ?case
  proof (cases "key = ''iterations''")
    case True
    with Cons.prems have "stringify R opts keys = Inr strs" "set keys \<subseteq> set (Object_keys opts)"
      by simp_all
    from Cons.IH [OF this] True show ?thesis by auto
  next
    case False
    with Cons.prems obtain s where s: "toString R (get opts key) = Inr s"
      and rest: "stringify R (put key (JStr s) opts) keys = Inr strs"
      by (auto split: sum.splits)
    from Cons.prems have mem: "key \<in> set (Object_keys opts)" by simp
    have keys': "Object_keys (put key (JStr s) opts) = Object_keys opts"
      by (rule keys_put_same [OF mem])
    from Cons.prems have "set keys \<subseteq> set (Object_keys (put key (JStr s) opts))"
      by (simp add: keys')
    from Cons.IH [OF rest this]
    have k1: "Object_keys strs = Object_keys opts"
      and k2: "\<And>k. k \<in> set keys \<Longrightarrow> k \<noteq> ''iterations'' \<Longrightarrow>
                 \<exists>s'. toString R (get (put key (JStr s) opts) k) = Inr s' \<and> get strs k = JStr s'"
      and k3: "\<And>k. k \<notin> set keys \<or> k = ''iterations'' \<Longrightarrow> get strs k = get (put key (JStr s) opts) k"
      by (simp_all add: keys')
    have a: "\<exists>s'. toString R (get opts k) = Inr s' \<and> get strs k = JStr s'"
      if "k \<in> set (key # keys)" "k \<noteq> ''iterations''" for k
    proof (cases "k = key")
      case True
      show ?thesis
      proof (cases "key \<in> set keys")
        case True
        from k2 [OF True False] \<open>k = key\<close> s show ?thesis by (simp add: get_put)
      next
        case False
        from k3 [of key] False \<open>k = key\<close> s show ?thesis by (simp add: get_put)
      qed
    next
      case False
      with that have "k \<in> set keys" by simp
      from k2 [OF this that(2)] False show ?thesis by (simp add: get_put)
    qed
    have b: "get strs k = get opts k" if "k \<notin> set (key # keys) \<or> k = ''iterations''" for k
    proof -
      from that False have "k \<noteq> key" by auto
      moreover from that have "k \<notin> set keys \<or> k = ''iterations''" by auto
      ultimately show ?thesis using k3 [of k] by (simp add: get_put)
    qed
    from k1 a b show ?thesis by blast
  qed
qed

section \<open>What train, predict and toJSON leave\<close>

lemma train_options:
  "options (fst (snd (train R b X y w))) =
     (if checkLabels b
      then put ''num_class'' (JStr (nat_toString (card (set y)))) (options b)
      else options b)"
  by (simp add: train_def Let_def split_def length_remdups_card_conv split: option.splits)

lemma train_success_state:
  assumes "checkMatrix R X = None"
  shows "fst (snd (train R b X y w)) =
           (if checkLabels b
            then b\<lparr>options := put ''num_class'' (JStr (nat_toString (card (set y)))) (options b)\<rparr>
            else b)
           \<lparr>model := Some (fst (create_model R (Float32_bytes R (concat X)) (Float32_bytes R y)
                                  (length X) (columns X) w))\<rparr>"
    and "snd (snd (train R b X y w)) =
           train_full_model R (model (fst (snd (train R b X y w))))
             (get (options (fst (snd (train R b X y w)))) ''iterations'')
             (fold (\<lambda>(key, v). set_param R (model (fst (snd (train R b X y w)))) key v)
                (forwarded (options (fst (snd (train R b X y w)))))
                (snd (create_model R (Float32_bytes R (concat X)) (Float32_bytes R y)
                        (length X) (columns X) w)))"
  using assms
  by (simp_all add: train_def Let_def split_def set_params_fold forwarded_def
        length_remdups_card_conv)

lemma predict_rows_length: "length (fst (predict_rows R h cols X w)) = length X"
  by (induction X arbitrary: w) (simp_all add: split_def Let_def)

lemma predict_outcome:
  "fst (predict R b X w) =
     (case checkMatrix R X of
        Some e \<Rightarrow> Inl e
      | None \<Rightarrow> Inr (fst (predict_rows R (model b) (columns X) X w)))"
  by (simp add: predict_def split_def Let_def split: option.splits)

lemma toJSON_untrained:
  "model b = None \<Longrightarrow> toJSON R b w = (Inl (Error ''No model trained to save''), w)"
  by (simp add: toJSON_def)

lemma heap_after_set:
  "map (\<lambda>i. HEAPU8 (HEAPU8_set array offset w) (offset + i)) [0..<length array] = array"
  by (rule nth_equalityI) (simp_all add: HEAPU8_set_def)

section \<open>The library contract\<close>

lemma faithful_null: "faithful R live file enc score \<Longrightarrow> live l None = None \<and> live l (Some 0) = None"
  by (simp add: faithful_def)

lemma faithful_predict:
  "faithful R live file enc score \<Longrightarrow> live (lib w) h = Some mu \<Longrightarrow>
     fst (predict_one R h row cols w) = score mu row cols \<and>
     live (lib (snd (predict_one R h row cols w))) = live (lib w)"
  by (simp add: faithful_def)

lemma faithful_save:
  "faithful R live file enc score \<Longrightarrow> live (lib w) h = Some mu \<Longrightarrow>
     fst (save_model R h w) = int (length (enc mu)) \<and>
     file (lib (snd (save_model R h w))) = enc mu \<and>
     live (lib (snd (save_model R h w))) = live (lib w)"
  by (simp add: faithful_def)

lemma faithful_malloc:
  "faithful R live file enc score \<Longrightarrow>
     live (lib (snd (malloc R n w))) = live (lib w) \<and>
     file (lib (snd (malloc R n w))) = file (lib w)"
  by (simp add: faithful_def)

lemma faithful_free:
  "faithful R live file enc score \<Longrightarrow> live (lib (free R p w)) = live (lib w)"
  by (simp add: faithful_def)

lemma faithful_content:
  "faithful R live file enc score \<Longrightarrow> i < length (file (lib w)) \<Longrightarrow>
     HEAPU8 (get_file_content R p (int (length (file (lib w)))) w) (p + i) = file (lib w) ! i"
  by (simp add: faithful_def)

lemma faithful_content_live:
  "faithful R live file enc score \<Longrightarrow> live (lib (get_file_content R p n w)) = live (lib w)"
  by (simp add: faithful_def)

lemma faithful_load:
  "faithful R live file enc score \<Longrightarrow> map (\<lambda>i. HEAPU8 w (p + i)) [0..<n] = enc mu \<Longrightarrow>
     fst (load_model R p n w) \<noteq> 0 \<and>
     (\<exists>nu. live (lib (snd (load_model R p n w))) (Some (fst (load_model R p n w))) = Some nu \<and>
           score nu = score mu) \<and>
     (\<forall>h nu. live (lib w) h = Some nu \<longrightarrow> live (lib (snd (load_model R p n w))) h = Some nu)"
  by (simp add: faithful_def)

lemma predict_rows_score:
  "faithful R live file enc score \<Longrightarrow> live (lib w) h = Some mu \<Longrightarrow>
     fst (predict_rows R h cols X w) = map (\<lambda>row. score mu (Float32_bytes R row) cols) X"
proof (induction X arbitrary: w)
  case Nil
  then show ?case by simp
next
  case (Cons current rest)
  let ?w1 = "snd (predict_one R h (Float32_bytes R current) cols w)"
  from faithful_predict [OF Cons.prems, of "Float32_bytes R current" cols]
  have p: "fst (predict_one R h (Float32_bytes R current) cols w)
             = score mu (Float32_bytes R current) cols"
    and "live (lib ?w1) h = Some mu"
    using Cons.prems(2) by simp_all
  from Cons.IH [OF Cons.prems(1) this(2)] p show ?case
    by (simp add: split_def Let_def)
qed

lemma toJSON_faithful:
  assumes F: "faithful R live file enc score"
    and L: "live (lib w) (model m) = Some mu"
  shows "\<exists>w1. toJSON R m w =
           (Inr \<lparr>j_name = JStr ''ml-xgboost'', j_model = map sint (enc mu),
                 j_options = options m\<rparr>, w1) \<and>
         live (lib w1) = live (lib w)"
proof -
  from faithful_null [OF F, of "lib w"] L
  have trained: "model m \<noteq> None" "model m \<noteq> Some 0" by (metis option.distinct(1))+
  let ?sz = "int (length (enc mu))"
  define w1 where "w1 = snd (save_model R (model m) w)"
  from faithful_save [OF F L]
  have sz: "save_model R (model m) w = (?sz, w1)"
    and file1: "file (lib w1) = enc mu" and live1: "live (lib w1) = live (lib w)"
    by (simp_all add: w1_def prod_eq_iff)
  define offset where "offset = fst (malloc R ?sz w1)"
  define w2 where "w2 = snd (malloc R ?sz w1)"
  have m2: "malloc R ?sz w1 = (offset, w2)"
    by (simp add: offset_def w2_def)
  from faithful_malloc [OF F, of ?sz w1]
  have file2: "file (lib w2) = enc mu" and live2: "live (lib w2) = live (lib w)"
    by (simp_all add: w2_def file1 live1)
  define w3 where "w3 = HEAPU8_set (replicate (length (enc mu)) 0) offset w2"
  have lib3: "lib w3 = lib w2"
    by (simp add: w3_def HEAPU8_set_def)
  define w4 where "w4 = get_file_content R offset ?sz w3"
  have live4: "live (lib w4) = live (lib w)"
    by (simp add: w4_def faithful_content_live [OF F] lib3 live2)
  have "HEAPU8 w4 (offset + i) = enc mu ! i" if "i < length (enc mu)" for i
    using faithful_content [OF F, of i w3 offset] that
    by (simp add: w4_def lib3 file2)
  then have array: "map (\<lambda>i. getValue_i8 (offset + i) w4) [0..<length (enc mu)] = map sint (enc mu)"
    by (intro nth_equalityI) (simp_all add: getValue_i8_def)
  have live5: "live (lib (free R offset w4)) = live (lib w)"
    by (simp add: faithful_free [OF F] live4)
  have "toJSON R m w =
          (Inr \<lparr>j_name = JStr ''ml-xgboost'', j_model = map sint (enc mu),
                j_options = options m\<rparr>, free R offset w4)"
    using trained by (simp add: toJSON_def sz m2 array w3_def [symmetric] w4_def [symmetric])
  with live5 show ?thesis by blast
qed

lemma XGBoost_from_faithful:
  assumes F: "faithful R live file enc score"
    and S: "strings_but_iterations (j_options j)"
    and B: "Uint8Array_from (j_model j) = enc mu"
  shows "\<exists>h w2 nu. XGBoost_from R j w =
           (Inr \<lparr>model = Some h, options = j_options j, checkLabels = False\<rparr>, w2) \<and>
         live (lib w2) (Some h) = Some nu \<and> score nu = score mu \<and>
         (\<forall>k ka. live (lib w) k = Some ka \<longrightarrow> live (lib w2) k = Some ka)"
proof -
  let ?n = "length (enc mu)"
  define offset where "offset = fst (malloc R (int ?n) w)"
  define w1 where "w1 = snd (malloc R (int ?n) w)"
  have m1: "malloc R (int ?n) w = (offset, w1)"
    by (simp add: offset_def w1_def)
  have live1: "live (lib w1) = live (lib w)"
    using faithful_malloc [OF F, of "int ?n" w] by (simp add: w1_def)
  define w2 where "w2 = HEAPU8_set (enc mu) offset w1"
  have lib2: "lib w2 = lib w1"
    by (simp add: w2_def HEAPU8_set_def)
  have bytes: "map (\<lambda>i. HEAPU8 w2 (offset + i)) [0..<?n] = enc mu"
    unfolding w2_def by (rule heap_after_set)
  define h where "h = fst (load_model R offset ?n w2)"
  define w3 where "w3 = snd (load_model R offset ?n w2)"
  have l3: "load_model R offset ?n w2 = (h, w3)"
    by (simp add: h_def w3_def)
  from faithful_load [OF F bytes]
  obtain nu where h0: "h \<noteq> 0" and nu: "live (lib w3) (Some h) = Some nu" "score nu = score mu"
    and kept: "\<forall>k ka. live (lib w2) k = Some ka \<longrightarrow> live (lib w3) k = Some ka"
    unfolding h_def w3_def by blast
  have live4: "live (lib (free R offset w3)) = live (lib w3)"
    by (rule faithful_free [OF F])
  have strs: "stringify R (j_options j) (Object_keys (j_options j)) = Inr (j_options j)"
    by (rule stringify_strings_same [OF S]) simp
  have "XGBoost_from R j w =
          (Inr \<lparr>model = Some h, options = j_options j, checkLabels = False\<rparr>, free R offset w3)"
    using h0 by (simp add: XGBoost_from_def B m1 w2_def [symmetric] l3 strs)
  with nu kept live4 lib2 live1 show ?thesis by auto
qed

text \<open>
  The instance of the environment keeps the contract: a handle stands for the bytes
  stored under it, a model is saved as its bytes, and a new handle is above every
  handle in use.
\<close>

lemma fold_max_le: "a \<le> fold max xs (a :: int)"
  by (induction xs arbitrary: a) (auto intro: order_trans [OF max.cobounded2])

lemma fold_max_mem: "x \<in> set xs \<Longrightarrow> x \<le> fold max xs (a :: int)"
proof (induction xs arbitrary: a)
  case Nil
  then show ?case by simp
next
  case (Cons y ys)
  show ?case
  proof (cases "x = y")
    case True
    have "max y a \<le> fold max ys (max y a)" by (rule fold_max_le)
    with True show ?thesis by simp
  next
    case False
    with Cons show ?thesis by simp
  qed
qed

lemma fresh_handle_new: "lookup_model l h = Some bs \<Longrightarrow> h \<noteq> Some (fresh_handle l)"
proof
  assume live: "lookup_model l h = Some bs" and eq: "h = Some (fresh_handle l)"
  then have "map_of (models l) (fresh_handle l) = Some bs"
    by (simp add: lookup_model_def split: if_splits)
  then have "fresh_handle l \<in> set (map fst (models l))"
    using map_of_SomeD [of "models l" "fresh_handle l" bs] by force
  from fold_max_mem [OF this, of 0] show False
    by (simp add: fresh_handle_def)
qed

lemma fresh_handle_pos: "0 < fresh_handle l"
  using fold_max_le [of 0 "map fst (models l)"] by (simp add: fresh_handle_def)

lemma stub_faithful: "faithful stub_env lookup_model saved_file (\<lambda>bs. bs) stub_score"
proof -
  have null: "lookup_model l None = None \<and> lookup_model l (Some 0) = None" for l
    by (simp add: lookup_model_def)
  have file_live: "lookup_model (l\<lparr>saved_file := bs\<rparr>) = lookup_model l" for l bs
    by (rule ext) (simp add: lookup_model_def split: option.splits)
  have content: "HEAPU8 (stub_get_file_content p (int (length (saved_file (lib w)))) w) (p + i)
                   = saved_file (lib w) ! i"
    if "i < length (saved_file (lib w))" for p w i
    using that by (simp add: stub_get_file_content_def HEAPU8_set_def)
  have content_live: "lib (stub_get_file_content p n w) = lib w" for p n w
    by (simp add: stub_get_file_content_def HEAPU8_set_def)
  have load1: "fst (stub_load_model p n w) \<noteq> 0" for p n w
    using fresh_handle_pos [of "lib w"] by (simp add: stub_load_model_def add_model_def Let_def)
  have load2: "lookup_model (lib (snd (stub_load_model p n w))) (Some (fst (stub_load_model p n w)))
                 = Some (map (\<lambda>i. HEAPU8 w (p + i)) [0..<n])" for p n w
    using fresh_handle_pos [of "lib w"]
    by (simp add: stub_load_model_def add_model_def Let_def lookup_model_def)
  have load3: "lookup_model (lib (snd (stub_load_model p n w))) h = Some nu"
    if "lookup_model (lib w) h = Some nu" for p n w h nu
    using that fresh_handle_new [OF that]
    by (auto simp: stub_load_model_def add_model_def Let_def lookup_model_def
             split: option.splits if_splits)
  show ?thesis
    unfolding faithful_def
    by (simp add: stub_env_def null stub_predict_one_def stub_save_model_def file_live
          content content_live load1 load2 load3)
qed

text \<open>
  The run of the class in that instance: construction, training, saving, loading and
  predicting with both objects.
\<close>

lemma demo_roundtrip:
  "fst (toJSON stub_env demo_booster demo_wasm) = Inr demo_saved \<and>
   fst (load stub_env demo_saved (snd (toJSON stub_env demo_booster demo_wasm))) = Inr demo_loaded \<and>
   fst (predict stub_env demo_loaded [[1, 2], [250, 4]]
          (snd (load stub_env demo_saved (snd (toJSON stub_env demo_booster demo_wasm)))))
     = Inr [26, 277] \<and>
   fst (predict stub_env demo_booster [[1, 2], [250, 4]]
          (snd (load stub_env demo_saved (snd (toJSON stub_env demo_booster demo_wasm)))))
     = Inr [26, 277]"
  by code_simp

section \<open>Saving and loading\<close>

text \<open>
  C1. Round trip. For a library that keeps the contract \<open>faithful\<close>, an object
  \<open>m\<close> whose handle stands for a model and whose options hold strings: \<open>toJSON\<close>
  returns an object, \<open>load\<close> of that object returns a new instance with the options
  of \<open>m\<close>, and for every matrix \<open>D\<close> the new instance predicts what \<open>m\<close>
  predicts, after the load as before the save. What the class adds to the contract is
  that the bytes reach \<open>load_model\<close> as \<open>get_file_content\<close> wrote them: read as
  signed \<open>i8\<close> values by \<open>toJSON\<close>, they are taken modulo 256 by
  \<open>new Uint8Array\<close>.
\<close>

theorem roundtrip_predictions:
  assumes F: "faithful R live file enc score"
    and L: "live (lib w) (model m) = Some mu"
    and S: "strings_but_iterations (options m)"
  shows "\<exists>j w1 m' w2. toJSON R m w = (Inr j, w1) \<and> load R j w1 = (Inr m', w2) \<and>
           options m' = options m \<and>
           (\<forall>D. fst (predict R m' D w2) = fst (predict R m D w) \<and>
                fst (predict R m D w2) = fst (predict R m D w))"
proof -
  define j where "j = \<lparr>j_name = JStr ''ml-xgboost'', j_model = map sint (enc mu),
                       j_options = options m\<rparr>"
  from toJSON_faithful [OF F L] obtain w1
    where saved: "toJSON R m w = (Inr j, w1)" and live1: "live (lib w1) = live (lib w)"
    unfolding j_def by blast
  have bytes: "Uint8Array_from (j_model j) = enc mu"
    by (simp add: j_def Uint8Array_from_def map_idI)
  have S': "strings_but_iterations (j_options j)"
    using S by (simp add: j_def)
  from XGBoost_from_faithful [OF F S' bytes, of w1] obtain h w2 nu
    where made: "XGBoost_from R j w1 =
                   (Inr \<lparr>model = Some h, options = j_options j, checkLabels = False\<rparr>, w2)"
      and new: "live (lib w2) (Some h) = Some nu" and same: "score nu = score mu"
      and kept: "\<forall>k ka. live (lib w1) k = Some ka \<longrightarrow> live (lib w2) k = Some ka"
    by blast
  define m' where "m' = \<lparr>model = Some h, options = j_options j, checkLabels = False\<rparr>"
  have loaded: "load R j w1 = (Inr m', w2)"
    using made by (simp add: load_def j_def m'_def)
  have old: "live (lib w2) (model m) = Some mu"
    using kept L live1 by simp
  have new': "live (lib w2) (model m') = Some nu"
    using new by (simp add: m'_def)
  have "fst (predict R m' D w2) = fst (predict R m D w) \<and>
        fst (predict R m D w2) = fst (predict R m D w)" for D
    by (simp add: predict_outcome predict_rows_score [OF F old] predict_rows_score [OF F L]
          predict_rows_score [OF F new'] same split: option.splits)
  moreover have "options m' = options m"
    by (simp add: m'_def j_def)
  ultimately show ?thesis
    using saved loaded by blast
qed

theorem roundtrip_predictions_witness:
  "lookup_model (lib demo_wasm) (model demo_booster) = Some [1, 2, 3, 4, 5, 6, 0, 1, 1] \<and>
   strings_but_iterations (options demo_booster) \<and>
   (\<exists>j w1 m' w2. toJSON stub_env demo_booster demo_wasm = (Inr j, w1) \<and>
      load stub_env j w1 = (Inr m', w2) \<and> options m' = options demo_booster \<and>
      (\<forall>D. fst (predict stub_env m' D w2) = fst (predict stub_env demo_booster D demo_wasm) \<and>
           fst (predict stub_env demo_booster D w2)
             = fst (predict stub_env demo_booster D demo_wasm)))"
proof -
  have live: "lookup_model (lib demo_wasm) (model demo_booster) = Some [1, 2, 3, 4, 5, 6, 0, 1, 1]"
    by code_simp
  have strs: "strings_but_iterations (options demo_booster)"
    by code_simp
  from roundtrip_predictions [OF stub_faithful live strs] live strs show ?thesis
    by blast
qed

text \<open>
  C5. \<open>load\<close> of an object whose \<open>name\<close> is not \<open>'ml-xgboost'\<close> throws the
  RangeError \<open>Invalid model: <name>\<close>; no instance is made and the WebAssembly
  instance is not touched.
\<close>

theorem load_rejects_other_name:
  "j_name m \<noteq> JStr ''ml-xgboost'' \<Longrightarrow>
     load R m w = (Inl (RangeError (''Invalid model: '' @ template R (j_name m))), w)"
  by (simp add: load_def)

theorem load_rejects_other_name_witness:
  "JStr ''ml-svm'' \<noteq> JStr ''ml-xgboost'' \<and>
   load stub_env \<lparr>j_name = JStr ''ml-svm'', j_model = [1, 2], j_options = []\<rparr> stub_wasm
     = (Inl (RangeError ''Invalid model: ml-svm''), stub_wasm)"
  using load_rejects_other_name
    [of "\<lparr>j_name = JStr ''ml-svm'', j_model = [1, 2], j_options = []\<rparr>" stub_env stub_wasm]
  by simp

text \<open>
  C9. Every object \<open>toJSON\<close> returns has the name \<open>'ml-xgboost'\<close>, so \<open>load\<close>
  of it, in any state of the WebAssembly instance, is the load path of the constructor
  and never throws the RangeError of an invalid model.
\<close>

theorem toJSON_name_accepted:
  "fst (toJSON R b w) = Inr j \<Longrightarrow>
     j_name j = JStr ''ml-xgboost'' \<and> load R j w2 = XGBoost_from R j w2 \<and>
     (\<forall>msg. fst (load R j w2) \<noteq> Inl (RangeError msg))"
proof -
  assume run: "fst (toJSON R b w) = Inr j"
  then have name: "j_name j = JStr ''ml-xgboost''"
    by (auto simp: toJSON_def Let_def split_def split: if_splits)
  then have same: "load R j w2 = XGBoost_from R j w2"
    by (simp add: load_def)
  have "fst (XGBoost_from R j w2) \<noteq> Inl (RangeError msg)" for msg
    using XGBoost_from_error [of R j w2 "RangeError msg" "snd (XGBoost_from R j w2)"]
    by (metis error.distinct(1) error.distinct(5) prod.collapse)
  with name same show ?thesis by simp
qed

theorem toJSON_name_accepted_witness:
  "fst (toJSON stub_env demo_booster demo_wasm) = Inr demo_saved \<and>
   j_name demo_saved = JStr ''ml-xgboost'' \<and>
   load stub_env demo_saved demo_wasm = XGBoost_from stub_env demo_saved demo_wasm \<and>
   (\<forall>msg. fst (load stub_env demo_saved demo_wasm) \<noteq> Inl (RangeError msg))"
proof -
  have saved: "fst (toJSON stub_env demo_booster demo_wasm) = Inr demo_saved"
    by code_simp
  from toJSON_name_accepted [OF saved, of demo_wasm] saved show ?thesis by blast
qed

section \<open>Training\<close>

text \<open>
  C2, as the code has it. \<open>train\<close> never compares the number of labels with the
  number of rows: it throws exactly when \<open>Matrix.checkMatrix\<close> throws on the training
  set, and returns otherwise, whatever the labels are. When it returns, it has handed
  the flattened matrix, the labels and the matrix's own row and column counts to
  \<open>create_model\<close>, stored the handle, set every option but \<open>iterations\<close> on that
  handle and called \<open>train_full_model\<close>; the whole result is given.
\<close>

theorem train_ignores_label_count:
  "fst (train R b X y w) = (case checkMatrix R X of Some e \<Rightarrow> Inl e | None \<Rightarrow> Inr ()) \<and>
   train R b X y w =
     (let b1 = (if checkLabels b
                then b\<lparr>options := put ''num_class'' (JStr (nat_toString (card (set y))))
                                    (options b)\<rparr>
                else b);
          made = create_model R (Float32_bytes R (concat X)) (Float32_bytes R y)
                   (length X) (columns X) w
      in case checkMatrix R X of
           Some e \<Rightarrow> (Inl e, b1, w)
         | None \<Rightarrow>
             (Inr (), b1\<lparr>model := Some (fst made)\<rparr>,
              train_full_model R (Some (fst made)) (get (options b1) ''iterations'')
                (fold (\<lambda>(key, v). set_param R (Some (fst made)) key v)
                   (forwarded (options b1)) (snd made))))"
  by (simp add: train_def Let_def split_def set_params_fold forwarded_def
        length_remdups_card_conv split: option.splits)

text \<open>
  C2 as stated fails: with ten rows and nine labels \<open>train\<close> returns.
\<close>

theorem train_accepts_nine_labels_for_ten_rows:
  "length [[1], [2], [3], [4], [5], [6], [7], [8], [9], [10 :: real]] = 10 \<and>
   length [0, 1, 0, 1, 0, 1, 0, 1, 0 :: real] = 9 \<and>
   fst (train stub_env demo_untrained [[1], [2], [3], [4], [5], [6], [7], [8], [9], [10]]
          [0, 1, 0, 1, 0, 1, 0, 1, 0] stub_wasm) = Inr ()"
  by code_simp

text \<open>
  C3, as the code has it. When \<open>train\<close> throws, the WebAssembly instance and the
  fields \<open>model\<close> and \<open>checkLabels\<close> are as before the call, and so are the
  options of an object whose \<open>checkLabels\<close> is false; on an object constructed with
  the objective \<open>multi:softmax\<close> the options have already received \<open>num_class\<close>.
\<close>

theorem train_failure_state:
  "fst (train R b X y w) = Inl e \<Longrightarrow>
     snd (train R b X y w) =
       (if checkLabels b
        then b\<lparr>options := put ''num_class'' (JStr (nat_toString (card (set y)))) (options b)\<rparr>
        else b, w)"
proof -
  assume run: "fst (train R b X y w) = Inl e"
  then obtain e' where rej: "checkMatrix R X = Some e'"
    by (cases "checkMatrix R X") (simp_all add: train_def Let_def split_def)
  then show ?thesis
    by (simp add: train_def length_remdups_card_conv)
qed

theorem train_failure_state_witness:
  "fst (train stub_env demo_untrained [[1, 2], [3]] demo_values stub_wasm)
     = Inl (RangeError ''Inconsistent array dimensions'') \<and>
   snd (train stub_env demo_untrained [[1, 2], [3]] demo_values stub_wasm)
     = (demo_untrained, stub_wasm)"
proof -
  have failed: "fst (train stub_env demo_untrained [[1, 2], [3]] demo_values stub_wasm)
     = Inl (RangeError ''Inconsistent array dimensions'')"
    by code_simp
  have plain: "\<not> checkLabels demo_untrained"
    by (simp add: demo_untrained_def)
  from train_failure_state [OF failed] plain failed show ?thesis by simp
qed

text \<open>
  C3 as stated fails: an object constructed with \<open>multi:softmax\<close> has no
  \<open>num_class\<close>, \<open>train\<close> on rows of different lengths throws, and the object
  then has \<open>num_class\<close>.
\<close>

theorem failed_train_changes_options:
  "XGBoost_new stub_env [(''objective'', JStr ''multi:softmax'')] = Inr demo_fresh \<and>
   fst (train stub_env demo_fresh [[1, 2], [3]] demo_values stub_wasm)
     = Inl (RangeError ''Inconsistent array dimensions'') \<and>
   get (options demo_fresh) ''num_class'' = JUndefined \<and>
   get (options (fst (snd (train stub_env demo_fresh [[1, 2], [3]] demo_values stub_wasm))))
     ''num_class'' = JStr ''2''"
  by code_simp

text \<open>
  C7. On an object constructed with the objective \<open>multi:softmax\<close>, \<open>train\<close>
  stores the number of distinct labels, in decimal, under \<open>num_class\<close>; the pair is
  among the parameters of the \<open>set_param\<close> loop, and when \<open>checkMatrix\<close> passes
  the instance \<open>train\<close> leaves is \<open>train_full_model\<close> applied after that loop, so
  the library has the parameter before it trains.
\<close>

theorem train_records_num_class:
  assumes "XGBoost_new R opts = Inr b"
    and "get opts ''objective'' = JStr ''multi:softmax''"
  shows "get (options (fst (snd (train R b X y w)))) ''num_class''
           = JStr (nat_toString (card (set y))) \<and>
         (''num_class'', JStr (nat_toString (card (set y))))
           \<in> set (forwarded (options (fst (snd (train R b X y w))))) \<and>
         (checkMatrix R X = None \<longrightarrow>
            snd (snd (train R b X y w)) =
              train_full_model R (model (fst (snd (train R b X y w))))
                (get (options (fst (snd (train R b X y w)))) ''iterations'')
                (fold (\<lambda>(key, v). set_param R (model (fst (snd (train R b X y w)))) key v)
                   (forwarded (options (fst (snd (train R b X y w)))))
                   (snd (create_model R (Float32_bytes R (concat X)) (Float32_bytes R y)
                           (length X) (columns X) w))))"
proof -
  from assms XGBoost_new_fields [of R opts b] have cl: "checkLabels b" by simp
  let ?n = "JStr (nat_toString (card (set y)))"
  have opts': "options (fst (snd (train R b X y w))) = put ''num_class'' ?n (options b)"
    using cl by (simp add: train_options)
  have recorded: "get (options (fst (snd (train R b X y w)))) ''num_class'' = ?n"
    by (simp add: opts' get_put)
  have "''num_class'' \<in> set (Object_keys (put ''num_class'' ?n (options b)))"
    by (simp add: keys_put)
  then have sent: "(''num_class'', ?n) \<in> set (forwarded (options (fst (snd (train R b X y w)))))"
    unfolding opts' forwarded_def by (auto simp: get_put)
  from train_success_state(2) [of R X b y w] recorded sent show ?thesis
    by blast
qed

theorem train_records_num_class_witness:
  "XGBoost_new stub_env [(''objective'', JStr ''multi:softmax'')] = Inr demo_fresh \<and>
   checkMatrix stub_env demo_set = None \<and>
   card (set demo_values) = 2 \<and>
   get (options (fst (snd (train stub_env demo_fresh demo_set demo_values stub_wasm)))) ''num_class''
     = JStr ''2'' \<and>
   (''num_class'', JStr ''2'')
     \<in> set (forwarded (options (fst (snd (train stub_env demo_fresh demo_set demo_values stub_wasm)))))"
proof -
  have new: "XGBoost_new stub_env [(''objective'', JStr ''multi:softmax'')] = Inr demo_fresh"
    by code_simp
  have obj: "get [(''objective'', JStr ''multi:softmax'')] ''objective'' = JStr ''multi:softmax''"
    by (simp add: get_def)
  have two: "card (set demo_values) = 2"
    by (simp add: demo_values_def)
  have "nat_toString 2 = ''2''"
    by (simp add: nat_toString.simps)
  moreover have "checkMatrix stub_env demo_set = None"
    by code_simp
  ultimately show ?thesis
    using train_records_num_class [OF new obj, of demo_set demo_values stub_wasm] new two
    by simp
qed

section \<open>Predicting\<close>

text \<open>
  C4 at \<open>new XGBoost({})\<close>, which has no model: \<open>toJSON\<close> throws
  \<open>No model trained to save\<close>, and \<open>predict\<close> on two rows, which has no such
  test, hands the \<open>undefined\<close> handle to \<open>predict_one\<close> and returns the two
  results.
\<close>

theorem predict_untrained_returns:
  "XGBoost_new stub_env [] = Inr demo_untrained \<and>
   model demo_untrained = None \<and>
   fst (toJSON stub_env demo_untrained stub_wasm) = Inl (Error ''No model trained to save'') \<and>
   fst (predict stub_env demo_untrained [[1, 2], [3, 4]] stub_wasm) = Inr [0, 0]"
  by code_simp

text \<open>
  C8. On a matrix that \<open>checkMatrix\<close> lets through, \<open>predict\<close> returns an
  array with one number for each row.
\<close>

theorem predict_length:
  "checkMatrix R X = None \<Longrightarrow>
     \<exists>ps w1. predict R b X w = (Inr ps, w1) \<and> length ps = length X"
proof -
  assume ok: "checkMatrix R X = None"
  obtain ps w1 where run: "predict_rows R (model b) (columns X) X w = (ps, w1)"
    by (cases "predict_rows R (model b) (columns X) X w") 
  have "length ps = length X"
    using predict_rows_length [of R "model b" "columns X" X w] run by simp
  with ok run show ?thesis by (simp add: predict_def)
qed

theorem predict_length_witness:
  "checkMatrix stub_env demo_set = None \<and>
   (\<exists>ps w1. predict stub_env demo_booster demo_set demo_wasm = (Inr ps, w1) \<and> length ps = 3)"
proof -
  have ok: "checkMatrix stub_env demo_set = None"
    by code_simp
  have "length demo_set = 3"
    by (simp add: demo_set_def)
  with predict_length [OF ok, of demo_booster demo_wasm] ok show ?thesis by simp
qed

section \<open>Construction\<close>

text \<open>
  C6, as the code has it. The constructor compares no option with a range: for every
  options object whose values, \<open>iterations\<close> apart, are neither \<open>undefined\<close> nor
  \<open>null\<close> it returns an instance without a model, whose options have the keys of
  \<open>Object.assign({}, defaultOptions, options)\<close> in their order, hold \<open>iterations\<close>
  as it was and every other value as its \<open>toString()\<close>; with distinct keys the
  merged value of a key is the given one, or the default where none is given.
\<close>

theorem constructor_checks_no_range:
  assumes given: "\<forall>(key, v) \<in> set opts. key = ''iterations'' \<or> (v \<noteq> JUndefined \<and> v \<noteq> JNull)"
  shows "\<exists>b. XGBoost_new R opts = Inr b \<and> model b = None \<and>
           checkLabels b = (get opts ''objective'' = JStr ''multi:softmax'') \<and>
           Object_keys (options b)
             = Object_keys (Object_assign (Object_assign [] defaultOptions) opts) \<and>
           get (options b) ''iterations''
             = get (Object_assign (Object_assign [] defaultOptions) opts) ''iterations'' \<and>
           (\<forall>key \<in> set (Object_keys (options b)). key \<noteq> ''iterations'' \<longrightarrow>
              (\<exists>s. toString R (get (Object_assign (Object_assign [] defaultOptions) opts) key) = Inr s \<and>
                   get (options b) key = JStr s)) \<and>
           (distinct (Object_keys opts) \<longrightarrow>
              (\<forall>key. get (Object_assign (Object_assign [] defaultOptions) opts) key =
                 (if key \<in> set (Object_keys opts) then get opts key else get defaultOptions key)))"
proof -
  define merged where "merged = Object_assign (Object_assign [] defaultOptions) opts"
  have "get merged k \<noteq> JUndefined \<and> get merged k \<noteq> JNull"
    if k: "k \<in> set (Object_keys merged)" and it: "k \<noteq> ''iterations''" for k
  proof -
    from get_in_set [OF k] have "(k, get merged k) \<in> set merged" .
    then have "(k, get merged k) \<in> set (Object_assign [] defaultOptions) \<or>
               (k, get merged k) \<in> set opts"
      unfolding merged_def by (rule assign_values)
    then have "(k, get merged k) \<in> set defaultOptions \<or> (k, get merged k) \<in> set opts"
      using assign_values [of k "get merged k" "[]" defaultOptions] by auto
    with given it default_values show ?thesis by fastforce
  qed
  then have "\<forall>k \<in> set (Object_keys merged). k \<noteq> ''iterations'' \<longrightarrow>
               get merged k \<noteq> JUndefined \<and> get merged k \<noteq> JNull"
    by blast
  from stringify_defined [OF this] obtain strs
    where run: "stringify R merged (Object_keys merged) = Inr strs" by blast
  define b where "b = \<lparr>model = None, options = strs,
                       checkLabels = (get opts ''objective'' = JStr ''multi:softmax'')\<rparr>"
  have made: "XGBoost_new R opts = Inr b"
    using run by (simp add: XGBoost_new_def merged_def [symmetric] b_def Let_def)
  from stringify_result [OF run]
  have keys: "Object_keys strs = Object_keys merged"
    and strs: "\<And>k. k \<in> set (Object_keys merged) \<Longrightarrow> k \<noteq> ''iterations'' \<Longrightarrow>
                 \<exists>s. toString R (get merged k) = Inr s \<and> get strs k = JStr s"
    and iter: "get strs ''iterations'' = get merged ''iterations''"
    by simp_all
  have merged_values: "get merged key =
      (if key \<in> set (Object_keys opts) then get opts key else get defaultOptions key)"
    if "distinct (Object_keys opts)" for key
    unfolding merged_def by (simp add: get_assign [OF that] get_defaults)
  have "model b = None" "checkLabels b = (get opts ''objective'' = JStr ''multi:softmax'')"
    "options b = strs"
    by (simp_all add: b_def)
  with made keys strs iter merged_values show ?thesis
    unfolding merged_def [symmetric] by (intro exI [of _ b]) simp
qed

theorem constructor_checks_no_range_witness:
  "\<exists>b. XGBoost_new stub_env [(''max_depth'', JNum (- 3)), (''eta'', JNum 7)] = Inr b \<and>
       Object_keys (options b) = Object_keys defaultOptions \<and>
       get (options b) ''max_depth'' = JStr ''-3'' \<and> get (options b) ''eta'' = JStr ''7'' \<and>
       get (options b) ''subsample'' = JStr ''0.5'' \<and>
       get (options b) ''iterations'' = JNum 200"
proof -
  let ?opts = "[(''max_depth'', JNum (- 3)), (''eta'', JNum 7)]"
  let ?merged = "Object_assign (Object_assign [] defaultOptions) ?opts"
  have given: "\<forall>(key, v) \<in> set ?opts. key = ''iterations'' \<or> (v \<noteq> JUndefined \<and> v \<noteq> JNull)"
    by simp
  from constructor_checks_no_range [OF given, of stub_env] obtain b
    where made: "XGBoost_new stub_env ?opts = Inr b"
      and keys: "Object_keys (options b) = Object_keys ?merged"
      and iter: "get (options b) ''iterations'' = get ?merged ''iterations''"
      and strs: "\<And>key. key \<in> set (Object_keys (options b)) \<Longrightarrow> key \<noteq> ''iterations'' \<Longrightarrow>
                   \<exists>s. toString stub_env (get ?merged key) = Inr s \<and> get (options b) key = JStr s"
    by blast
  have k: "Object_keys ?merged = Object_keys defaultOptions"
    by code_simp
  have mem: "''max_depth'' \<in> set (Object_keys ?merged)" "''eta'' \<in> set (Object_keys ?merged)"
    "''subsample'' \<in> set (Object_keys ?merged)"
    by code_simp+
  have vals: "toString stub_env (get ?merged ''max_depth'') = Inr ''-3''"
    "toString stub_env (get ?merged ''eta'') = Inr ''7''"
    "toString stub_env (get ?merged ''subsample'') = Inr ''0.5''"
    "get ?merged ''iterations'' = JNum 200"
    by code_simp+
  from strs [of "''max_depth''"] strs [of "''eta''"] strs [of "''subsample''"] mem vals keys
  have "get (options b) ''max_depth'' = JStr ''-3''" "get (options b) ''eta'' = JStr ''7''"
    "get (options b) ''subsample'' = JStr ''0.5''"
    by auto
  with made keys k iter vals show ?thesis by auto
qed

text \<open>
  C6 as stated fails: with every numeric option outside its documented range the
  constructor returns the instance that holds them as strings.
\<close>

theorem constructor_accepts_out_of_range:
  "XGBoost_new stub_env
     [(''max_depth'', JNum (- 3)), (''eta'', JNum 7), (''min_child_weight'', JNum (- 1)),
      (''subsample'', JNum 0), (''colsample_bytree'', JNum 2), (''iterations'', JNum (- 5))]
   = Inr \<lparr>model = None,
          options =
            [(''booster'', JStr ''gbtree''), (''objective'', JStr ''reg:linear''),
             (''max_depth'', JStr ''-3''), (''eta'', JStr ''7''),
             (''min_child_weight'', JStr ''-1''), (''subsample'', JStr ''0''),
             (''colsample_bytree'', JStr ''2''), (''silent'', JStr ''1''),
             (''iterations'', JNum (- 5))],
          checkLabels = False\<rparr>"
  by code_simp

text \<open>
  C10. After the constructor, on the fresh path and through \<open>load\<close>, every option
  but \<open>iterations\<close> is a string. \<open>train\<close> keeps that, \<open>num_class\<close> included,
  and the values its loop hands to \<open>set_param\<close> are those strings.
\<close>

theorem options_hold_strings:
  "(XGBoost_new R opts = Inr b \<longrightarrow> strings_but_iterations (options b)) \<and>
   (fst (load R m w) = Inr b \<longrightarrow> strings_but_iterations (options b)) \<and>
   (strings_but_iterations (options b) \<longrightarrow>
      strings_but_iterations (options (fst (snd (train R b X y w')))) \<and>
      list_all (\<lambda>(key, v). is_string v) (forwarded (options (fst (snd (train R b X y w'))))) \<and>
      (checkMatrix R X = None \<longrightarrow>
         snd (snd (train R b X y w')) =
           train_full_model R (model (fst (snd (train R b X y w'))))
             (get (options (fst (snd (train R b X y w')))) ''iterations'')
             (fold (\<lambda>(key, v). set_param R (model (fst (snd (train R b X y w')))) key v)
                (forwarded (options (fst (snd (train R b X y w')))))
                (snd (create_model R (Float32_bytes R (concat X)) (Float32_bytes R y)
                        (length X) (columns X) w')))))"
proof -
  have fresh: "strings_but_iterations (options b)" if "XGBoost_new R opts = Inr b"
    using XGBoost_new_fields [OF that] by simp
  have loaded: "strings_but_iterations (options b)" if run: "fst (load R m w) = Inr b"
  proof -
    from run have "fst (XGBoost_from R m w) = Inr b"
      by (simp add: load_def split: if_splits)
    from XGBoost_from_fields [OF this] show ?thesis by simp
  qed
  have kept: "strings_but_iterations (options (fst (snd (train R b X y w'))))"
    if "strings_but_iterations (options b)"
    using that by (simp add: train_options strings_put)
  from fresh loaded kept train_success_state(2) [of R X b y w'] show ?thesis
    by (simp add: strings_forwarded [symmetric])
qed

theorem options_hold_strings_witness:
  "XGBoost_new stub_env [(''objective'', JStr ''multi:softmax'')] = Inr demo_fresh \<and>
   strings_but_iterations (options demo_fresh) \<and>
   fst (load stub_env demo_saved demo_wasm) = Inr demo_loaded \<and>
   strings_but_iterations (options demo_loaded) \<and>
   checkMatrix stub_env demo_set = None \<and>
   strings_but_iterations
     (options (fst (snd (train stub_env demo_fresh demo_set demo_values stub_wasm)))) \<and>
   list_all (\<lambda>(key, v). is_string v)
     (forwarded (options (fst (snd (train stub_env demo_fresh demo_set demo_values stub_wasm)))))"
proof -
  have new: "XGBoost_new stub_env [(''objective'', JStr ''multi:softmax'')] = Inr demo_fresh"
    by code_simp
  have loaded: "fst (load stub_env demo_saved demo_wasm) = Inr demo_loaded"
    by code_simp
  have ok: "checkMatrix stub_env demo_set = None"
    by code_simp
  from options_hold_strings
         [of stub_env "[(''objective'', JStr ''multi:softmax'')]" demo_fresh
             demo_saved demo_wasm demo_set demo_values stub_wasm]
       new
  have fresh: "strings_but_iterations (options demo_fresh)"
    and trained: "strings_but_iterations
       (options (fst (snd (train stub_env demo_fresh demo_set demo_values stub_wasm))))"
      "list_all (\<lambda>(key, v). is_string v)
       (forwarded (options (fst (snd (train stub_env demo_fresh demo_set demo_values stub_wasm)))))"
    by blast+
  from options_hold_strings
         [of stub_env "[]" demo_loaded demo_saved demo_wasm demo_set demo_values stub_wasm]
       loaded
  have "strings_but_iterations (options demo_loaded)"
    by blast
  with new loaded ok fresh trained show ?thesis
    by blast
qed

end
